theory Spec2Isabelle
  imports Main
begin

section \<open>Data model of chess.py\<close>

text \<open>
  The program keeps every chess piece as a mutable \<^verbatim>\<open>Piece\<close> object and the board as an
  8 by 8 list of lists whose entries are either the integer 0 or a reference to such an
  object.  Objects are shared: \<^verbatim>\<open>selected_piece\<close> in \<^verbatim>\<open>main\<close> and \<^verbatim>\<open>self\<close> in the
  move generators denote the very object that a board cell refers to, and the program
  updates the fields of that object in place.  The embedding therefore uses an explicit
  store: a heap is the list of all allocated piece objects, an address is an index into
  it, and a board cell holds \<open>None\<close> (the source's 0) or \<open>Some\<close> address.
  \<^verbatim>\<open>copy.deepcopy\<close> of a board yields a structure with fresh objects carrying the same
  field values (\<^verbatim>\<open>Piece.__deepcopy__\<close> copies name, row, col, color and has_moved), so a
  deep copy is the pair of heap and board taken as a value.

  The piece names \<^verbatim>\<open>'p' 'r' 'n' 'b' 'q' 'k'\<close> and the colours \<^verbatim>\<open>'w' 'b'\<close> are the two
  datatypes below.  Rows and columns are Python integers, hence \<open>int\<close>.
\<close>

datatype kind = Pawn | Rook | Knight | Bishop | Queen | King

datatype colour = White | Black

record piece =
  name :: kind
  row :: int
  col :: int
  color :: colour
  has_moved :: bool

type_synonym square = "int \<times> int"
type_synonym heap = "piece list"
type_synonym board = "nat option list list"

datatype error = AttributeError

text \<open>\<^verbatim>\<open>Piece(name, row, col, color)\<close>: the constructor sets \<^verbatim>\<open>has_moved = False\<close>.\<close>

definition Piece :: "kind \<Rightarrow> int \<Rightarrow> int \<Rightarrow> colour \<Rightarrow> piece" where
  "Piece n r c cl = \<lparr>name = n, row = r, col = c, color = cl, has_moved = False\<rparr>"

text \<open>
  \<^verbatim>\<open>board[r][c]\<close> and \<^verbatim>\<open>board[r][c] = v\<close>.  Every index the program uses is either
  compared against \<^verbatim>\<open>ROWS\<close> and \<^verbatim>\<open>COLS\<close> first, or is a constant below 8, or is the
  row or column field of a piece, which the program keeps inside the grid.
\<close>

definition cell :: "board \<Rightarrow> int \<Rightarrow> int \<Rightarrow> nat option" where
  "cell b r c = b ! nat r ! nat c"

definition set_cell :: "board \<Rightarrow> int \<Rightarrow> int \<Rightarrow> nat option \<Rightarrow> board" where
  "set_cell b r c v = b[nat r := (b ! nat r)[nat c := v]]"

text \<open>\<^verbatim>\<open>0 <= row < ROWS and 0 <= col < COLS\<close> with \<^verbatim>\<open>ROWS = COLS = 8\<close>.\<close>

definition on_board :: "int \<Rightarrow> int \<Rightarrow> bool" where
  "on_board r c = (0 \<le> r \<and> r < 8 \<and> 0 \<le> c \<and> c < 8)"

text \<open>\<^verbatim>\<open>'b' if color == 'w' else 'w'\<close>\<close>

definition opponent :: "colour \<Rightarrow> colour" where
  "opponent cl = (if cl = White then Black else White)"

text \<open>
  \<^verbatim>\<open>for row in board: for piece in row: if piece != 0\<close> visits the occupied cells in
  row-major order; \<open>occupants\<close> lists the addresses found in one row and \<open>pieces_on\<close>
  those of the whole board.
\<close>

primrec occupants :: "nat option list \<Rightarrow> nat list" where
  "occupants [] = []"
| "occupants (x # xs) = (case x of None \<Rightarrow> occupants xs | Some a \<Rightarrow> a # occupants xs)"

definition pieces_on :: "board \<Rightarrow> nat list" where
  "pieces_on b = concat (map occupants b)"

section \<open>Move generators\<close>

text \<open>
  The two diagonal captures of \<^verbatim>\<open>get_pawn_moves\<close> are the same code for
  \<^verbatim>\<open>new_col = self.col - 1\<close> and \<^verbatim>\<open>new_col = self.col + 1\<close>; \<open>pawn_capture\<close> is that
  block.  The capture is generated only onto an occupied square of the other colour; the
  en-passant destination is appended in addition when the target is that square.
\<close>

definition pawn_capture :: "heap \<Rightarrow> board \<Rightarrow> piece \<Rightarrow> square option \<Rightarrow> int \<Rightarrow> int \<Rightarrow> square list" where
  "pawn_capture h b p en_passant_target new_row new_col =
     (if 0 \<le> new_col \<and> new_col < 8 \<and> 0 \<le> new_row \<and> new_row < 8 then
        (case cell b new_row new_col of
           None \<Rightarrow> []
         | Some t \<Rightarrow> if color (h ! t) \<noteq> color p then [(new_row, new_col)] else [])
        @ (if en_passant_target = Some (new_row, new_col) then [(new_row, new_col)] else [])
      else [])"

definition get_pawn_moves :: "heap \<Rightarrow> board \<Rightarrow> nat \<Rightarrow> square option \<Rightarrow> square list" where
  "get_pawn_moves h b self en_passant_target =
     (let p = h ! self;
          direction = (if color p = White then -1 else 1);
          start_row = (if color p = White then 6 else 1);
          new_row = row p + direction;
          new_row_two = new_row + direction
      in (if 0 \<le> new_row \<and> new_row < 8 \<and> cell b new_row (col p) = None then
            (new_row, col p) #
            (if row p = start_row \<and> 0 \<le> new_row_two \<and> new_row_two < 8
                \<and> cell b new_row_two (col p) = None
             then [(new_row_two, col p)] else [])
          else [])
         @ pawn_capture h b p en_passant_target new_row (col p - 1)
         @ pawn_capture h b p en_passant_target new_row (col p + 1))"

text \<open>
  The inner \<^verbatim>\<open>while\<close> loop of \<^verbatim>\<open>get_rook_moves\<close> and \<^verbatim>\<open>get_bishop_moves\<close>: it walks from
  \<open>(r, c)\<close> in direction \<open>(d0, d1)\<close> while the square is on the board, collects empty
  squares, and stops at the first occupied one, which it collects when the occupant has
  the other colour.  The directions of the source are constant and never \<open>(0, 0)\<close>; the
  guard \<open>(d0, d1) \<noteq> (0, 0)\<close> records this and makes the walk terminate.
\<close>

function slide :: "heap \<Rightarrow> board \<Rightarrow> colour \<Rightarrow> int \<Rightarrow> int \<Rightarrow> int \<Rightarrow> int \<Rightarrow> square list" where
  "slide h b cl d0 d1 r c =
     (if 0 \<le> r \<and> r < 8 \<and> 0 \<le> c \<and> c < 8 \<and> (d0, d1) \<noteq> (0, 0) then
        (case cell b r c of
           None \<Rightarrow> (r, c) # slide h b cl d0 d1 (r + d0) (c + d1)
         | Some t \<Rightarrow> if color (h ! t) \<noteq> cl then [(r, c)] else [])
      else [])"
  by pat_completeness auto
termination
  by (relation "measure (\<lambda>(h, b, cl, d0, d1, r, c).
        (if d0 > 0 then nat (8 - r) else if d0 < 0 then nat (r + 1)
         else if d1 > 0 then nat (8 - c) else nat (c + 1)))") auto

definition slide_all :: "heap \<Rightarrow> board \<Rightarrow> nat \<Rightarrow> (int \<times> int) list \<Rightarrow> square list" where
  "slide_all h b self directions =
     concat (map (\<lambda>(d0, d1). slide h b (color (h ! self)) d0 d1
                                 (row (h ! self) + d0) (col (h ! self) + d1)) directions)"

definition get_rook_moves :: "heap \<Rightarrow> board \<Rightarrow> nat \<Rightarrow> square list" where
  "get_rook_moves h b self = slide_all h b self [(-1, 0), (1, 0), (0, -1), (0, 1)]"

definition get_bishop_moves :: "heap \<Rightarrow> board \<Rightarrow> nat \<Rightarrow> square list" where
  "get_bishop_moves h b self = slide_all h b self [(-1, -1), (-1, 1), (1, -1), (1, 1)]"

definition get_queen_moves :: "heap \<Rightarrow> board \<Rightarrow> nat \<Rightarrow> square list" where
  "get_queen_moves h b self = get_rook_moves h b self @ get_bishop_moves h b self"

text \<open>\<^verbatim>\<open>target == 0 or target.color != self.color\<close>\<close>

definition free_or_enemy :: "heap \<Rightarrow> board \<Rightarrow> colour \<Rightarrow> int \<Rightarrow> int \<Rightarrow> bool" where
  "free_or_enemy h b cl r c =
     (case cell b r c of None \<Rightarrow> True | Some t \<Rightarrow> color (h ! t) \<noteq> cl)"

definition get_knight_moves :: "heap \<Rightarrow> board \<Rightarrow> nat \<Rightarrow> square list" where
  "get_knight_moves h b self =
     filter (\<lambda>(r, c). on_board r c \<and> free_or_enemy h b (color (h ! self)) r c)
       (map (\<lambda>(o0, o1). (row (h ! self) + o0, col (h ! self) + o1))
          [(-2, -1), (-2, 1), (-1, -2), (-1, 2), (1, -2), (1, 2), (2, -1), (2, 1)])"

text \<open>
  \<^verbatim>\<open>get_valid_moves\<close> dispatches on the piece name.  \<^verbatim>\<open>is_in_check\<close> and
  \<^verbatim>\<open>is_square_under_attack\<close> call it only on pieces that are not kings (they
  \<^verbatim>\<open>continue\<close> past a king), and always without an en-passant target; \<open>other_moves\<close>
  is the dispatch for those five names.  The full dispatch, with the king, is
  \<open>get_valid_moves\<close> below.
\<close>

definition other_moves :: "heap \<Rightarrow> board \<Rightarrow> nat \<Rightarrow> square option \<Rightarrow> square list" where
  "other_moves h b self en_passant_target =
     (case name (h ! self) of
        Pawn \<Rightarrow> get_pawn_moves h b self en_passant_target
      | Rook \<Rightarrow> get_rook_moves h b self
      | Knight \<Rightarrow> get_knight_moves h b self
      | Bishop \<Rightarrow> get_bishop_moves h b self
      | Queen \<Rightarrow> get_queen_moves h b self
      | King \<Rightarrow> [])"

section \<open>Attack and check oracle\<close>

text \<open>
  The first loop of \<^verbatim>\<open>is_in_check\<close> looks for the king.  Its \<^verbatim>\<open>break\<close> leaves the
  inner loop only, so the scan goes on with the next row: \<^verbatim>\<open>king_pos\<close> ends as the
  position stored in the first king of the last row that holds a king of that colour.
  The position is read from the fields of the king object, not from the cell.
\<close>

primrec king_in_row :: "heap \<Rightarrow> colour \<Rightarrow> nat option list \<Rightarrow> square option" where
  "king_in_row h cl [] = None"
| "king_in_row h cl (x # xs) =
     (case x of
        None \<Rightarrow> king_in_row h cl xs
      | Some a \<Rightarrow> if name (h ! a) = King \<and> color (h ! a) = cl
                  then Some (row (h ! a), col (h ! a))
                  else king_in_row h cl xs)"

primrec find_king :: "heap \<Rightarrow> colour \<Rightarrow> square option \<Rightarrow> board \<Rightarrow> square option" where
  "find_king h cl king_pos [] = king_pos"
| "find_king h cl king_pos (r # rs) =
     find_king h cl (case king_in_row h cl r of None \<Rightarrow> king_pos | Some p \<Rightarrow> Some p) rs"

text \<open>
  The attack loop shared by \<^verbatim>\<open>is_in_check\<close> and \<^verbatim>\<open>is_square_under_attack\<close>: some piece
  of the opponent colour that is not a king has the square among its moves.
\<close>

definition attacks :: "heap \<Rightarrow> board \<Rightarrow> colour \<Rightarrow> square \<Rightarrow> nat \<Rightarrow> bool" where
  "attacks h b opponent_color sq a =
     (color (h ! a) = opponent_color \<and> name (h ! a) \<noteq> King
      \<and> sq \<in> set (other_moves h b a None))"

definition is_square_under_attack :: "heap \<Rightarrow> board \<Rightarrow> square \<Rightarrow> colour \<Rightarrow> bool" where
  "is_square_under_attack h b sq cl = list_ex (attacks h b (opponent cl) sq) (pieces_on b)"

definition is_in_check :: "heap \<Rightarrow> board \<Rightarrow> colour \<Rightarrow> bool" where
  "is_in_check h b cl =
     (case find_king h cl None b of
        None \<Rightarrow> False
      | Some king_pos \<Rightarrow> list_ex (attacks h b (opponent cl) king_pos) (pieces_on b))"

section \<open>Castling and king moves\<close>

definition home_row :: "colour \<Rightarrow> int" where
  "home_row cl = (if cl = White then 7 else 0)"

text \<open>\<^verbatim>\<open>rook == 0 or rook.name != 'r' or rook.color != color or rook.has_moved\<close>, negated.\<close>

definition rook_ready :: "heap \<Rightarrow> board \<Rightarrow> colour \<Rightarrow> int \<Rightarrow> bool" where
  "rook_ready h b cl c =
     (case cell b (home_row cl) c of
        None \<Rightarrow> False
      | Some rook \<Rightarrow> name (h ! rook) = Rook \<and> color (h ! rook) = cl \<and> \<not> has_moved (h ! rook))"

definition can_castle_kingside :: "heap \<Rightarrow> board \<Rightarrow> colour \<Rightarrow> bool" where
  "can_castle_kingside h b cl =
     (if \<not> rook_ready h b cl 7 then False
      else if list_ex (\<lambda>c. cell b (home_row cl) c \<noteq> None) [5, 6] then False
      else if list_ex (\<lambda>c. is_square_under_attack h b (home_row cl, c) cl) [4, 5, 6] then False
      else True)"

definition can_castle_queenside :: "heap \<Rightarrow> board \<Rightarrow> colour \<Rightarrow> bool" where
  "can_castle_queenside h b cl =
     (if \<not> rook_ready h b cl 0 then False
      else if list_ex (\<lambda>c. cell b (home_row cl) c \<noteq> None) [1, 2, 3] then False
      else if list_ex (\<lambda>c. is_square_under_attack h b (home_row cl, c) cl) [2, 3, 4] then False
      else True)"

text \<open>
  The loop over the eight directions in \<^verbatim>\<open>get_king_moves\<close>.  For a destination that is
  free or holds an enemy the king object is displaced in place (\<open>h1\<close>), \<^verbatim>\<open>is_in_check\<close>
  is asked on the unchanged board, and the two fields are written back (\<open>h2\<close>).  The
  function returns the moves together with the heap it leaves behind.
\<close>

fun king_steps :: "heap \<Rightarrow> board \<Rightarrow> nat \<Rightarrow> (int \<times> int) list \<Rightarrow> square list \<times> heap" where
  "king_steps h b self [] = ([], h)"
| "king_steps h b self ((d0, d1) # ds) =
     (let r = row (h ! self) + d0; c = col (h ! self) + d1 in
      if on_board r c \<and> free_or_enemy h b (color (h ! self)) r c then
        (let original_row = row (h ! self); original_col = col (h ! self);
             h1 = h[self := (h ! self)\<lparr>row := r, col := c\<rparr>];
             in_check = is_in_check h1 b (color (h1 ! self));
             h2 = h1[self := (h1 ! self)\<lparr>row := original_row, col := original_col\<rparr>];
             (moves, h3) = king_steps h2 b self ds
         in (if \<not> in_check then (r, c) # moves else moves, h3))
      else king_steps h b self ds)"

definition castling_moves :: "heap \<Rightarrow> board \<Rightarrow> nat \<Rightarrow> square list" where
  "castling_moves h b self =
     (if \<not> has_moved (h ! self) \<and> \<not> is_in_check h b (color (h ! self)) then
        (if can_castle_kingside h b (color (h ! self))
         then [(row (h ! self), col (h ! self) + 2)] else [])
        @ (if can_castle_queenside h b (color (h ! self))
           then [(row (h ! self), col (h ! self) - 2)] else [])
      else [])"

definition king_directions :: "(int \<times> int) list" where
  "king_directions = [(-1, -1), (-1, 0), (-1, 1), (0, -1), (0, 1), (1, -1), (1, 0), (1, 1)]"

definition get_king_moves :: "heap \<Rightarrow> board \<Rightarrow> nat \<Rightarrow> square list \<times> heap" where
  "get_king_moves h b self =
     (let (moves, h') = king_steps h b self king_directions
      in (moves @ castling_moves h' b self, h'))"

text \<open>
  \<^verbatim>\<open>get_valid_moves\<close>.  Only the king generator writes to the heap, and it leaves the
  heap as it found it (lemma \<open>king_steps_heap\<close> below), so the callers go on with the
  heap they passed in.
\<close>

definition get_valid_moves :: "heap \<Rightarrow> board \<Rightarrow> nat \<Rightarrow> square option \<Rightarrow> square list" where
  "get_valid_moves h b self en_passant_target =
     (if name (h ! self) = King then fst (get_king_moves h b self)
      else other_moves h b self en_passant_target)"

section \<open>The initial position\<close>

text \<open>
  \<^verbatim>\<open>create_board\<close> allocates the 32 pieces in the order of its assignments: Black's back
  rank, Black's pawns, White's back rank, White's pawns.
\<close>

definition back_rank :: "kind list" where
  "back_rank = [Rook, Knight, Bishop, Queen, King, Bishop, Knight, Rook]"

definition create_heap :: heap where
  "create_heap =
       map (\<lambda>(n, c). Piece n 0 c Black) (zip back_rank [0..8])
     @ map (\<lambda>c. Piece Pawn 1 c Black) [0..7]
     @ map (\<lambda>(n, c). Piece n 7 c White) (zip back_rank [0..8])
     @ map (\<lambda>c. Piece Pawn 6 c White) [0..7]"

definition empty_row :: "nat option list" where
  "empty_row = replicate 8 None"

definition create_board :: board where
  "create_board =
     [map Some [0..<8], map Some [8..<16], empty_row, empty_row,
      empty_row, empty_row, map Some [24..<32], map Some [16..<24]]"

section \<open>Simulation of a move and checkmate\<close>

text \<open>
  \<^verbatim>\<open>move_puts_king_in_check\<close> and the body of the innermost loop of \<^verbatim>\<open>is_checkmate\<close>
  start with the same five statements on a deep copy of the board: fetch the object at
  the cell named by the fields of \<^verbatim>\<open>piece\<close>, clear that cell, store the object at the
  destination, and set its row and column.  Writing a field of the integer 0 raises
  \<^verbatim>\<open>AttributeError\<close>.
\<close>

definition simulate :: "heap \<Rightarrow> board \<Rightarrow> nat \<Rightarrow> square \<Rightarrow> error + heap \<times> board" where
  "simulate h b piece move =
     (let temp_piece = cell b (row (h ! piece)) (col (h ! piece));
          b1 = set_cell b (row (h ! piece)) (col (h ! piece)) None;
          b2 = set_cell b1 (fst move) (snd move) temp_piece
      in case temp_piece of
           None \<Rightarrow> Inl AttributeError
         | Some t \<Rightarrow> Inr (h[t := (h ! t)\<lparr>row := fst move, col := snd move\<rparr>], b2))"

definition move_puts_king_in_check :: "heap \<Rightarrow> board \<Rightarrow> nat \<Rightarrow> square \<Rightarrow> colour \<Rightarrow> error + bool" where
  "move_puts_king_in_check h b piece move cl =
     (case simulate h b piece move of
        Inl e \<Rightarrow> Inl e
      | Inr (temp_h, temp_board) \<Rightarrow> Inr (is_in_check temp_h temp_board cl))"

text \<open>
  The rook displacement of \<^verbatim>\<open>is_checkmate\<close>: whatever the cell in column \<open>c_from\<close> of
  the destination row holds is stored in column \<open>c_to\<close>, and then its row and column
  fields are written, which raises when the cell held 0.
\<close>

definition shift_rook :: "heap \<Rightarrow> board \<Rightarrow> int \<Rightarrow> int \<Rightarrow> int \<Rightarrow> error + heap \<times> board" where
  "shift_rook h b r c_from c_to =
     (let rook = cell b r c_from;
          b1 = set_cell b r c_from None;
          b2 = set_cell b1 r c_to rook
      in case rook of
           None \<Rightarrow> Inl AttributeError
         | Some a \<Rightarrow> Inr (h[a := (h ! a)\<lparr>row := r, col := c_to\<rparr>], b2))"

definition simulate_castling :: "heap \<Rightarrow> board \<Rightarrow> nat \<Rightarrow> square \<Rightarrow> error + heap \<times> board" where
  "simulate_castling h b piece move =
     (case simulate h b piece move of
        Inl e \<Rightarrow> Inl e
      | Inr (temp_h, temp_board) \<Rightarrow>
          if name (h ! piece) = King \<and> \<bar>snd move - 4\<bar> = 2 then
            (if snd move - 4 = 2 then shift_rook temp_h temp_board (fst move) 7 5
             else if snd move - 4 = - 2 then shift_rook temp_h temp_board (fst move) 0 3
             else Inr (temp_h, temp_board))
          else Inr (temp_h, temp_board))"

text \<open>
  The loops of \<^verbatim>\<open>is_checkmate\<close>.  \<open>escapes\<close> runs over the moves of one piece and
  \<open>some_escape\<close> over the pieces of the board; each answers \<open>Inr True\<close> as soon as a
  simulated move leaves the colour out of check (where the source returns \<^verbatim>\<open>False\<close>),
  and an exception ends the scan.
\<close>

fun escapes :: "heap \<Rightarrow> board \<Rightarrow> colour \<Rightarrow> nat \<Rightarrow> square list \<Rightarrow> error + bool" where
  "escapes h b cl piece [] = Inr False"
| "escapes h b cl piece (move # moves) =
     (case simulate_castling h b piece move of
        Inl e \<Rightarrow> Inl e
      | Inr (temp_h, temp_board) \<Rightarrow>
          if \<not> is_in_check temp_h temp_board cl then Inr True
          else escapes h b cl piece moves)"

fun some_escape :: "heap \<Rightarrow> board \<Rightarrow> colour \<Rightarrow> nat list \<Rightarrow> error + bool" where
  "some_escape h b cl [] = Inr False"
| "some_escape h b cl (piece # rest) =
     (if color (h ! piece) = cl then
        (case escapes h b cl piece (get_valid_moves h b piece None) of
           Inl e \<Rightarrow> Inl e
         | Inr found \<Rightarrow> if found then Inr True else some_escape h b cl rest)
      else some_escape h b cl rest)"

definition is_checkmate :: "heap \<Rightarrow> board \<Rightarrow> colour \<Rightarrow> error + bool" where
  "is_checkmate h b cl =
     (if \<not> is_in_check h b cl then Inr False
      else case some_escape h b cl (pieces_on b) of
             Inl e \<Rightarrow> Inl e
           | Inr found \<Rightarrow> Inr (\<not> found))"

text \<open>\<^verbatim>\<open>check_win_condition\<close> returns the pair \<^verbatim>\<open>(game_over, winner)\<close>.\<close>

definition has_king :: "heap \<Rightarrow> board \<Rightarrow> colour \<Rightarrow> bool" where
  "has_king h b cl = list_ex (\<lambda>a. name (h ! a) = King \<and> color (h ! a) = cl) (pieces_on b)"

definition check_win_condition :: "heap \<Rightarrow> board \<Rightarrow> bool \<times> colour option" where
  "check_win_condition h b =
     (if \<not> has_king h b White then (True, Some Black)
      else if \<not> has_king h b Black then (True, Some White)
      else (False, None))"

section \<open>Text of the move log\<close>

definition digit :: "nat \<Rightarrow> char" where
  "digit n = ''0123456789'' ! n"

function str_nat :: "nat \<Rightarrow> string" where
  "str_nat n = (if n < 10 then [digit n] else str_nat (n div 10) @ [digit (n mod 10)])"
  by pat_completeness auto
termination
  by (relation "measure id") auto

text \<open>Python's \<^verbatim>\<open>str\<close> of an integer, as the f-strings apply it.\<close>

definition str_int :: "int \<Rightarrow> string" where
  "str_int i = (if i < 0 then CHR ''-'' # str_nat (nat (- i)) else str_nat (nat i))"

text \<open>The piece name as the source spells it, and \<^verbatim>\<open>name.upper()\<close>.\<close>

fun name_str :: "kind \<Rightarrow> string" where
  "name_str Pawn = ''p''"
| "name_str Rook = ''r''"
| "name_str Knight = ''n''"
| "name_str Bishop = ''b''"
| "name_str Queen = ''q''"
| "name_str King = ''k''"

fun name_upper :: "kind \<Rightarrow> string" where
  "name_upper Pawn = ''P''"
| "name_upper Rook = ''R''"
| "name_upper Knight = ''N''"
| "name_upper Bishop = ''B''"
| "name_upper Queen = ''Q''"
| "name_upper King = ''K''"

text \<open>\<^verbatim>\<open>'White' if c == 'w' else 'Black'\<close>\<close>

definition side_name :: "colour \<Rightarrow> string" where
  "side_name cl = (if cl = White then ''White'' else ''Black'')"

text \<open>
  The record of line 1018.  It is formatted after the piece has been moved, from the
  fields of the moved object and from the clicked square.
\<close>

definition move_san :: "nat \<Rightarrow> colour \<Rightarrow> piece \<Rightarrow> int \<Rightarrow> int \<Rightarrow> string" where
  "move_san move_number trn p r c =
     str_nat move_number @ ''. '' @ side_name trn @ '': '' @ name_upper (name p)
     @ '' from ('' @ str_int (row p) @ '', '' @ str_int (col p)
     @ '') to ('' @ str_int r @ '', '' @ str_int c @ '')''"

section \<open>The game loop of main\<close>

text \<open>
  The local variables of \<^verbatim>\<open>main\<close>, with the heap of piece objects that \<^verbatim>\<open>board\<close> and
  \<^verbatim>\<open>selected_piece\<close> point into.  An entry of \<^verbatim>\<open>move_stack\<close> is the deep copy of the
  tuple \<^verbatim>\<open>(board, turn, en_passant_target, move_history, captured_white,
  captured_black)\<close>; \<^verbatim>\<open>append\<close> adds at the end of the list and \<^verbatim>\<open>pop\<close> takes from
  the end.
\<close>

type_synonym snapshot =
  "heap \<times> board \<times> colour \<times> square option \<times> string list \<times> string list \<times> string list"

record game =
  heap :: heap
  board :: board
  selected_piece :: "nat option"
  valid_moves :: "square list"
  turn :: colour
  game_over :: bool
  winner :: "colour option"
  move_history :: "string list"
  captured_white :: "string list"
  captured_black :: "string list"
  move_stack :: "snapshot list"
  en_passant_target :: "square option"

definition new_game :: game where
  "new_game =
     \<lparr>heap = create_heap, board = create_board, selected_piece = None, valid_moves = [],
      turn = White, game_over = False, winner = None, move_history = [],
      captured_white = [], captured_black = [], move_stack = [],
      en_passant_target = None\<rparr>"

definition snapshot_of :: "game \<Rightarrow> snapshot" where
  "snapshot_of g =
     (heap g, board g, turn g, en_passant_target g, move_history g,
      captured_white g, captured_black g)"

text \<open>
  \<^verbatim>\<open>captured_white.append(captured_piece.name + 'p')\<close> or the same on
  \<^verbatim>\<open>captured_black\<close>, by the colour of the captured piece.
\<close>

definition record_capture :: "piece \<Rightarrow> game \<Rightarrow> game" where
  "record_capture captured g =
     (if color captured = White
      then g\<lparr>captured_white := captured_white g @ [name_str (name captured) @ ''p'']\<rparr>
      else g\<lparr>captured_black := captured_black g @ [name_str (name captured) @ ''p'']\<rparr>)"

text \<open>
  Lines 964 to 972: the en-passant capture.  The cell in the row of the selected pawn and
  the column of the destination is cleared; reading the colour of what was there raises
  when the cell held 0.
\<close>

definition en_passant_capture :: "game \<Rightarrow> nat \<Rightarrow> int \<Rightarrow> int \<Rightarrow> error + game" where
  "en_passant_capture g sel r c =
     (if name (heap g ! sel) = Pawn \<and> Some (r, c) = en_passant_target g then
        (let capture_row = row (heap g ! sel);
             capture_col = c;
             captured_piece = cell (board g) capture_row capture_col;
             g1 = g\<lparr>board := set_cell (board g) capture_row capture_col None\<rparr>
         in case captured_piece of
              None \<Rightarrow> Inl AttributeError
            | Some a \<Rightarrow> Inr (record_capture (heap g1 ! a) g1))
      else Inr g)"

text \<open>Lines 975 to 984: the move itself, with the ordinary capture.\<close>

definition move_piece :: "game \<Rightarrow> nat \<Rightarrow> int \<Rightarrow> int \<Rightarrow> game" where
  "move_piece g sel r c =
     (let g1 = g\<lparr>board := set_cell (board g) (row (heap g ! sel)) (col (heap g ! sel)) None\<rparr>;
          captured_piece = cell (board g1) r c;
          g2 = (case captured_piece of
                  None \<Rightarrow> g1
                | Some a \<Rightarrow> record_capture (heap g1 ! a) g1);
          g3 = g2\<lparr>board := set_cell (board g2) r c (Some sel)\<rparr>
      in g3\<lparr>heap := (heap g3)[sel := (heap g3 ! sel)\<lparr>row := r, col := c, has_moved := True\<rparr>]\<rparr>)"

text \<open>
  Lines 987 to 1003: a king that lands in column 6 or 2 drags along whatever stands in
  column 7 or 0 of the destination row.
\<close>

definition castle_rook :: "game \<Rightarrow> int \<Rightarrow> int \<Rightarrow> int \<Rightarrow> error + game" where
  "castle_rook g r c_from c_to =
     (let rook = cell (board g) r c_from;
          b1 = set_cell (board g) r c_from None;
          b2 = set_cell b1 r c_to rook
      in case rook of
           None \<Rightarrow> Inl AttributeError
         | Some a \<Rightarrow>
             Inr (g\<lparr>board := b2,
                    heap := (heap g)[a := (heap g ! a)\<lparr>row := r, col := c_to, has_moved := True\<rparr>]\<rparr>))"

definition castling :: "game \<Rightarrow> nat \<Rightarrow> int \<Rightarrow> int \<Rightarrow> error + game" where
  "castling g sel r c =
     (if name (heap g ! sel) = King \<and> \<bar>c - 4\<bar> = 2 then
        (if c - 4 = 2 then castle_rook g r 7 5
         else if c - 4 = - 2 then castle_rook g r 0 3
         else Inr g)
      else Inr g)"

text \<open>
  \<^verbatim>\<open>promote_pawn\<close> waits for one of the keys q, r, b, n and returns a new piece of that
  name on the square of the pawn; the key is an argument of the model.  Lines 1006 to
  1008 rebind \<^verbatim>\<open>selected_piece\<close> to the new object and store it in the destination cell.
  The function returns the game and the address \<^verbatim>\<open>selected_piece\<close> now holds.
\<close>

datatype promotion_key = K_q | K_r | K_b | K_n

fun choice_of :: "promotion_key \<Rightarrow> kind" where
  "choice_of K_q = Queen"
| "choice_of K_r = Rook"
| "choice_of K_b = Bishop"
| "choice_of K_n = Knight"

definition promote_pawn :: "promotion_key \<Rightarrow> piece \<Rightarrow> piece" where
  "promote_pawn key p = Piece (choice_of key) (row p) (col p) (color p)"

definition promotion :: "game \<Rightarrow> nat \<Rightarrow> int \<Rightarrow> int \<Rightarrow> promotion_key \<Rightarrow> game \<times> nat" where
  "promotion g sel r c key =
     (if name (heap g ! sel) = Pawn \<and> (r = 0 \<or> r = 8 - 1) then
        (let new = length (heap g);
             g1 = g\<lparr>heap := heap g @ [promote_pawn key (heap g ! sel)]\<rparr>
         in (g1\<lparr>board := set_cell (board g1) r c (Some new)\<rparr>, new))
      else (g, sel))"

text \<open>Lines 1011 to 1014: the new en-passant target.\<close>

definition update_en_passant :: "game \<Rightarrow> nat \<Rightarrow> int \<Rightarrow> int \<Rightarrow> game" where
  "update_en_passant g sel r c =
     (let p = heap g ! sel;
          back = row p - (if color p = White then - 1 else 1)
      in if name p = Pawn \<and> \<bar>r - back\<bar> = 2
         then g\<lparr>en_passant_target := Some ((r + back) div 2, c)\<rparr>
         else g\<lparr>en_passant_target := None\<rparr>)"

text \<open>Lines 1017 to 1019: the move log.\<close>

definition log_move :: "game \<Rightarrow> nat \<Rightarrow> int \<Rightarrow> int \<Rightarrow> game" where
  "log_move g sel r c =
     (let move_number = length (move_history g) div 2 + 1
      in g\<lparr>move_history := move_history g @ [move_san move_number (turn g) (heap g ! sel) r c]\<rparr>)"

text \<open>Lines 1022 to 1042: win by capture, check notice, checkmate, change of turn.\<close>

definition note_check :: "game \<Rightarrow> colour \<Rightarrow> game" where
  "note_check g opponent_color =
     (if is_in_check (heap g) (board g) opponent_color
      then g\<lparr>move_history := move_history g @ [side_name opponent_color @ '' is in Check!'']\<rparr>
      else g)"

definition note_checkmate :: "game \<Rightarrow> colour \<Rightarrow> error + game" where
  "note_checkmate g opponent_color =
     (case is_checkmate (heap g) (board g) opponent_color of
        Inl e \<Rightarrow> Inl e
      | Inr mate \<Rightarrow>
          if mate then
            (let w = (if opponent_color = Black then White else Black)
             in Inr (g\<lparr>game_over := True, winner := Some w,
                       move_history := move_history g @ [side_name w @ '' wins by Checkmate!'']\<rparr>))
          else Inr g)"

definition evaluate_status :: "game \<Rightarrow> error + game" where
  "evaluate_status g =
     (let (over, w) = check_win_condition (heap g) (board g);
          g1 = g\<lparr>game_over := over, winner := w\<rparr>
      in if \<not> over then
           (case note_checkmate (note_check g1 (opponent (turn g1))) (opponent (turn g1)) of
              Inl e \<Rightarrow> Inl e
            | Inr g2 \<Rightarrow> Inr (g2\<lparr>turn := opponent (turn g2)\<rparr>))
         else
           Inr (g1\<lparr>move_history := move_history g1
                      @ [(case w of Some White \<Rightarrow> ''White'' | _ \<Rightarrow> ''Black'')
                         @ '' wins by capturing the king!'']\<rparr>))"

text \<open>
  Lines 959 to 1045: the branch taken when the clicked square is in \<^verbatim>\<open>valid_moves\<close>.
  An exception leaves \<^verbatim>\<open>main\<close>, so the steps are chained on the \<open>Inr\<close> results.
\<close>

definition commit :: "game \<Rightarrow> nat \<Rightarrow> int \<Rightarrow> int \<Rightarrow> promotion_key \<Rightarrow> error + game" where
  "commit g sel r c key =
     (let g0 = g\<lparr>move_stack := move_stack g @ [snapshot_of g]\<rparr>
      in case en_passant_capture g0 sel r c of
           Inl e \<Rightarrow> Inl e
         | Inr g1 \<Rightarrow>
            (case castling (move_piece g1 sel r c) sel r c of
               Inl e \<Rightarrow> Inl e
             | Inr g2 \<Rightarrow>
                (let (g3, sel') = promotion g2 sel r c key;
                     g4 = log_move (update_en_passant g3 sel' r c) sel' r c
                 in case evaluate_status g4 of
                      Inl e \<Rightarrow> Inl e
                    | Inr g5 \<Rightarrow> Inr (g5\<lparr>selected_piece := None, valid_moves := []\<rparr>))))"

text \<open>
  The list comprehension of lines 1051 and 1060: the generated moves that
  \<^verbatim>\<open>move_puts_king_in_check\<close> does not reject.
\<close>

fun keep_safe :: "heap \<Rightarrow> board \<Rightarrow> nat \<Rightarrow> colour \<Rightarrow> square list \<Rightarrow> error + square list" where
  "keep_safe h b piece cl [] = Inr []"
| "keep_safe h b piece cl (move # moves) =
     (case move_puts_king_in_check h b piece move cl of
        Inl e \<Rightarrow> Inl e
      | Inr in_check \<Rightarrow>
          (case keep_safe h b piece cl moves of
             Inl e \<Rightarrow> Inl e
           | Inr rest \<Rightarrow> Inr (if in_check then rest else move # rest)))"

definition filtered_moves :: "game \<Rightarrow> nat \<Rightarrow> error + square list" where
  "filtered_moves g piece =
     keep_safe (heap g) (board g) piece (turn g)
       (get_valid_moves (heap g) (board g) piece (en_passant_target g))"

text \<open>
  Lines 1056 to 1063: the first click on a piece.  The moves are filtered only when the
  side to move is in check.
\<close>

definition first_selection :: "game \<Rightarrow> nat \<Rightarrow> error + game" where
  "first_selection g piece =
     (if is_in_check (heap g) (board g) (turn g) then
        (case filtered_moves g piece of
           Inl e \<Rightarrow> Inl e
         | Inr moves \<Rightarrow> Inr (g\<lparr>valid_moves := moves, selected_piece := Some piece\<rparr>))
      else
        Inr (g\<lparr>valid_moves := get_valid_moves (heap g) (board g) piece (en_passant_target g),
               selected_piece := Some piece\<rparr>))"

text \<open>Lines 1047 to 1054: a click outside \<^verbatim>\<open>valid_moves\<close> while a piece is selected.\<close>

definition reselect :: "game \<Rightarrow> nat option \<Rightarrow> error + game" where
  "reselect g clicked =
     (case clicked of
        None \<Rightarrow> Inr (g\<lparr>selected_piece := None, valid_moves := []\<rparr>)
      | Some piece \<Rightarrow>
          if color (heap g ! piece) = turn g then
            (case filtered_moves g piece of
               Inl e \<Rightarrow> Inl e
             | Inr moves \<Rightarrow> Inr (g\<lparr>selected_piece := Some piece, valid_moves := moves\<rparr>))
          else Inr (g\<lparr>selected_piece := None, valid_moves := []\<rparr>))"

text \<open>
  The handler of \<^verbatim>\<open>MOUSEBUTTONDOWN\<close> for a click on the square \<open>(r, c)\<close> of the board
  (\<^verbatim>\<open>get_square_under_mouse\<close> returns \<^verbatim>\<open>board[row][col], row, col\<close>).  The event is
  ignored once the game is over.
\<close>

definition mouse_down :: "game \<Rightarrow> int \<Rightarrow> int \<Rightarrow> promotion_key \<Rightarrow> error + game" where
  "mouse_down g r c key =
     (if game_over g then Inr g
      else case selected_piece g of
             Some sel \<Rightarrow>
               if (r, c) \<in> set (valid_moves g) then commit g sel r c key
               else reselect g (cell (board g) r c)
           | None \<Rightarrow>
               (case cell (board g) r c of
                  None \<Rightarrow> Inr g
                | Some piece \<Rightarrow>
                    if color (heap g ! piece) = turn g then first_selection g piece
                    else Inr g))"

text \<open>
  Undo, bound to the key u (lines 1066 to 1074) and to the Undo button (lines 946 to
  955, inside the mouse handler and hence only while the game is not over).
\<close>

definition undo :: "game \<Rightarrow> game" where
  "undo g =
     (if move_stack g \<noteq> [] then
        (let (h, b, t, ep, hist, cw, cb) = last (move_stack g)
         in g\<lparr>move_stack := butlast (move_stack g),
              heap := h, board := b, turn := t, en_passant_target := ep,
              move_history := hist, captured_white := cw, captured_black := cb,
              selected_piece := None, valid_moves := [],
              game_over := False, winner := None\<rparr>)
      else g)"

definition undo_button :: "game \<Rightarrow> game" where
  "undo_button g = (if game_over g then g else undo g)"

text \<open>Restart, bound to the key r (lines 1076 to 1088).\<close>

definition restart :: "game \<Rightarrow> game" where
  "restart g = new_game"

text \<open>A sequence of clicks on board squares, stopping at the first exception.\<close>

fun clicks :: "game \<Rightarrow> (int \<times> int) list \<Rightarrow> error + game" where
  "clicks g [] = Inr g"
| "clicks g ((r, c) # rest) =
     (case mouse_down g r c K_q of Inl e \<Rightarrow> Inl e | Inr g' \<Rightarrow> clicks g' rest)"

section \<open>Well-formed boards and the positions of the examples\<close>

text \<open>
  \<^verbatim>\<open>create_board\<close> builds eight rows of eight cells, and no statement of the program
  changes the length of a row or of the board.
\<close>

definition wf_board :: "board \<Rightarrow> bool" where
  "wf_board b = (length b = 8 \<and> list_all (\<lambda>r. length r = 8) b)"

text \<open>The initial position after a first click on the white pawn of column 4.\<close>

definition opening_selection :: game where
  "opening_selection = new_game\<lparr>valid_moves := [(5, 4), (4, 4)], selected_piece := Some 28\<rparr>"

text \<open>
  Two white rooks against the bare black king on \<open>(0, 5)\<close>.  In \<open>ladder_before\<close> White
  is to move with one rook on \<open>(1, 0)\<close> and the other on \<open>(5, 1)\<close>; \<open>ladder_heap\<close> and
  \<open>ladder_board\<close> are the pieces and the board once that rook has gone to \<open>(0, 1)\<close>.
\<close>

definition ladder_before :: game where
  "ladder_before =
     \<lparr>heap = [\<lparr>name = Rook, row = 5, col = 1, color = White, has_moved = True\<rparr>,
              \<lparr>name = King, row = 0, col = 5, color = Black, has_moved = True\<rparr>,
              \<lparr>name = Rook, row = 1, col = 0, color = White, has_moved = True\<rparr>,
              \<lparr>name = King, row = 7, col = 4, color = White, has_moved = False\<rparr>],
      board = [[None, None, None, None, None, Some 1, None, None],
               [Some 2, None, None, None, None, None, None, None],
               empty_row, empty_row, empty_row,
               [None, Some 0, None, None, None, None, None, None],
               empty_row,
               [None, None, None, None, Some 3, None, None, None]],
      selected_piece = None, valid_moves = [],
      turn = White, game_over = False, winner = None, move_history = [],
      captured_white = [], captured_black = [], move_stack = [],
      en_passant_target = None\<rparr>"

definition ladder_heap :: heap where
  "ladder_heap =
     [\<lparr>name = Rook, row = 0, col = 1, color = White, has_moved = True\<rparr>,
      \<lparr>name = King, row = 0, col = 5, color = Black, has_moved = True\<rparr>,
      \<lparr>name = Rook, row = 1, col = 0, color = White, has_moved = True\<rparr>,
      \<lparr>name = King, row = 7, col = 4, color = White, has_moved = False\<rparr>]"

definition ladder_board :: board where
  "ladder_board =
     [[None, Some 0, None, None, None, Some 1, None, None],
      [Some 2, None, None, None, None, None, None, None],
      empty_row, empty_row, empty_row, empty_row, empty_row,
      [None, None, None, None, Some 3, None, None, None]]"





text \<open>
  A white pawn on \<open>(3, 4)\<close> beside a black pawn on \<open>(3, 3)\<close>, with the en-passant target
  \<open>(2, 3)\<close> behind the black pawn.  White is to move and has clicked on the pawn.
\<close>

definition en_passant_game :: game where
  "en_passant_game =
     \<lparr>heap = [\<lparr>name = King, row = 7, col = 4, color = White, has_moved = False\<rparr>,
              \<lparr>name = King, row = 0, col = 4, color = Black, has_moved = False\<rparr>,
              \<lparr>name = Pawn, row = 3, col = 4, color = White, has_moved = True\<rparr>,
              \<lparr>name = Pawn, row = 3, col = 3, color = Black, has_moved = True\<rparr>],
      board = [[None, None, None, None, Some 1, None, None, None],
               empty_row, empty_row,
               [None, None, None, Some 3, Some 2, None, None, None],
               empty_row, empty_row, empty_row,
               [None, None, None, None, Some 0, None, None, None]],
      selected_piece = Some 2, valid_moves = [(2, 4), (2, 3)],
      turn = White, game_over = False, winner = None, move_history = [],
      captured_white = [], captured_black = [], move_stack = [],
      en_passant_target = Some (2, 3)\<rparr>"

section \<open>How the example positions arise\<close>

lemma opening_selection_reached: "mouse_down new_game 6 4 K_q = Inr opening_selection"
  by code_simp

lemma en_passant_game_offered:
  "mouse_down (en_passant_game\<lparr>selected_piece := None, valid_moves := []\<rparr>) 3 4 K_q
     = Inr en_passant_game"
  by code_simp

section \<open>The king generator leaves the heap as it found it\<close>

lemma displace_restore:
  "h[a := (h[a := (h ! a)\<lparr>row := r, col := c\<rparr>] ! a)\<lparr>row := row (h ! a), col := col (h ! a)\<rparr>] = h"
  by (cases "a < length h") (simp_all add: list_update_beyond)

lemma king_steps_heap: "snd (king_steps h b self ds) = h"
proof (induction ds)
  case Nil
  show ?case by simp
next
  case (Cons d ds)
  obtain d0 d1 where d: "d = (d0, d1)" by (cases d)
  show ?case
    using Cons.IH by (simp add: d Let_def displace_restore split_beta)
qed

text \<open>
  Claim C10.  For every board and every king, \<^verbatim>\<open>get_king_moves\<close> returns with the row and
  column of the king as they were before the call, and with every piece object, hence
  every occupant of every square, as before the call: each temporary displacement of the
  king is written back.  (The function never assigns to a board cell, so the model has no
  board to return.)
\<close>

theorem get_king_moves_restores_king:
  "snd (get_king_moves h b self) = h
   \<and> row (snd (get_king_moves h b self) ! self) = row (h ! self)
   \<and> col (snd (get_king_moves h b self) ! self) = col (h ! self)"
  by (simp add: get_king_moves_def split_beta king_steps_heap)

section \<open>A missing king\<close>

lemma king_in_row_none:
  "\<not> list_ex (\<lambda>a. name (h ! a) = King \<and> color (h ! a) = cl) (occupants r)
   \<Longrightarrow> king_in_row h cl r = None"
  by (induction r) (auto split: option.splits)

lemma find_king_none:
  "\<not> has_king h b cl \<Longrightarrow> find_king h cl acc b = acc"
  by (induction b arbitrary: acc)
     (auto simp add: has_king_def pieces_on_def king_in_row_none list_ex_iff)

text \<open>
  Claim C8.  On a board with no king of the given colour \<^verbatim>\<open>is_in_check\<close> returns
  \<^verbatim>\<open>False\<close>; it is a function of heap and board that writes to neither.  The missing
  king is what \<^verbatim>\<open>check_win_condition\<close> reports as the end of the game.
\<close>

theorem is_in_check_missing_king:
  assumes "\<not> has_king h b cl"
  shows "is_in_check h b cl = False \<and> fst (check_win_condition h b) = True"
  using assms
  by (cases cl) (auto simp add: is_in_check_def find_king_none check_win_condition_def)

theorem is_in_check_missing_king_witness:
  "\<not> has_king ladder_heap (set_cell ladder_board 0 5 None) Black
   \<and> is_in_check ladder_heap (set_cell ladder_board 0 5 None) Black = False
   \<and> fst (check_win_condition ladder_heap (set_cell ladder_board 0 5 None)) = True"
proof -
  have h: "\<not> has_king ladder_heap (set_cell ladder_board 0 5 None) Black"
    by code_simp
  from is_in_check_missing_king [OF h] h show ?thesis by simp
qed

section \<open>Undo after a committed move\<close>

lemma record_capture_stack [simp]: "move_stack (record_capture p g) = move_stack g"
  by (simp add: record_capture_def)

lemma en_passant_capture_stack:
  "en_passant_capture g sel r c = Inr g' \<Longrightarrow> move_stack g' = move_stack g"
  by (auto simp add: en_passant_capture_def Let_def split: if_splits option.splits)

lemma move_piece_stack [simp]: "move_stack (move_piece g sel r c) = move_stack g"
  by (simp add: move_piece_def Let_def split: option.splits)

lemma castling_stack:
  "castling g sel r c = Inr g' \<Longrightarrow> move_stack g' = move_stack g"
  by (auto simp add: castling_def castle_rook_def Let_def split: if_splits option.splits)

lemma promotion_stack [simp]: "move_stack (fst (promotion g sel r c key)) = move_stack g"
  by (simp add: promotion_def Let_def)

lemma update_en_passant_stack [simp]:
  "move_stack (update_en_passant g sel r c) = move_stack g"
  by (simp add: update_en_passant_def Let_def)

lemma log_move_stack [simp]: "move_stack (log_move g sel r c) = move_stack g"
  by (simp add: log_move_def Let_def)

lemma note_check_stack [simp]: "move_stack (note_check g cl) = move_stack g"
  by (simp add: note_check_def)

lemma note_checkmate_stack:
  "note_checkmate g cl = Inr g' \<Longrightarrow> move_stack g' = move_stack g"
  by (auto simp add: note_checkmate_def Let_def split: sum.splits if_splits)

lemma evaluate_status_stack:
  "evaluate_status g = Inr g' \<Longrightarrow> move_stack g' = move_stack g"
  by (auto simp add: evaluate_status_def Let_def split_beta dest!: note_checkmate_stack
           split: sum.splits if_splits)

lemma commit_stack:
  assumes "commit g sel r c key = Inr g'"
  shows "move_stack g' = move_stack g @ [snapshot_of g]"
proof -
  let ?g0 = "g\<lparr>move_stack := move_stack g @ [snapshot_of g]\<rparr>"
  from assms obtain g1 where g1: "en_passant_capture ?g0 sel r c = Inr g1"
    by (auto simp add: commit_def Let_def split: sum.splits)
  from assms g1 obtain g2 where g2: "castling (move_piece g1 sel r c) sel r c = Inr g2"
    by (auto simp add: commit_def Let_def split: sum.splits)
  let ?p = "promotion g2 sel r c key"
  let ?g4 = "log_move (update_en_passant (fst ?p) (snd ?p) r c) (snd ?p) r c"
  from assms g1 g2 obtain g5 where g5: "evaluate_status ?g4 = Inr g5"
    and g': "g' = g5\<lparr>selected_piece := None, valid_moves := []\<rparr>"
    by (auto simp add: commit_def Let_def split_beta split: sum.splits)
  have "move_stack g' = move_stack g5" by (simp add: g')
  also have "\<dots> = move_stack ?g4" by (rule evaluate_status_stack [OF g5])
  also have "\<dots> = move_stack g2" by simp
  also have "\<dots> = move_stack g1" using castling_stack [OF g2] by simp
  also have "\<dots> = move_stack ?g0" by (rule en_passant_capture_stack [OF g1])
  finally show ?thesis by simp
qed

text \<open>
  When a click on a square of \<^verbatim>\<open>valid_moves\<close> commits a move and the handler returns,
  the entry pushed on \<^verbatim>\<open>move_stack\<close> is still the state before the move, although the
  live heap and board have been changed since; and undo (the key u) then restores that
  state: pieces and board, side to move, en-passant target, move history, both capture
  lists, and the stack itself are what they were before the move.  The hypothesis that
  the handler returns is essential: the last section gives a legal move on which it does
  not.
\<close>

lemma undo_when_commit_returns:
  assumes "selected_piece g = Some sel" and "(r, c) \<in> set (valid_moves g)"
    and "\<not> game_over g" and "mouse_down g r c key = Inr g'"
  shows "last (move_stack g') = snapshot_of g
       \<and> heap (undo g') = heap g \<and> board (undo g') = board g \<and> turn (undo g') = turn g
       \<and> en_passant_target (undo g') = en_passant_target g
       \<and> move_history (undo g') = move_history g
       \<and> captured_white (undo g') = captured_white g
       \<and> captured_black (undo g') = captured_black g
       \<and> move_stack (undo g') = move_stack g"
proof -
  from assms have "commit g sel r c key = Inr g'" by (simp add: mouse_down_def)
  then have "move_stack g' = move_stack g @ [snapshot_of g]" by (rule commit_stack)
  then show ?thesis by (simp add: undo_def snapshot_of_def)
qed

lemma undo_when_commit_returns_example:
  "selected_piece opening_selection = Some 28
   \<and> (4, 4) \<in> set (valid_moves opening_selection)
   \<and> \<not> game_over opening_selection
   \<and> (\<exists>g'. mouse_down opening_selection 4 4 K_q = Inr g'
          \<and> cell (board g') 6 4 \<noteq> cell (board opening_selection) 6 4
          \<and> last (move_stack g') = snapshot_of opening_selection
          \<and> heap (undo g') = heap opening_selection
          \<and> board (undo g') = board opening_selection
          \<and> turn (undo g') = turn opening_selection
          \<and> en_passant_target (undo g') = en_passant_target opening_selection
          \<and> move_history (undo g') = move_history opening_selection
          \<and> captured_white (undo g') = captured_white opening_selection
          \<and> captured_black (undo g') = captured_black opening_selection
          \<and> move_stack (undo g') = move_stack opening_selection)"
proof -
  have h1: "selected_piece opening_selection = Some 28" by code_simp
  have h2: "(4, 4) \<in> set (valid_moves opening_selection)" by code_simp
  have h3: "\<not> game_over opening_selection" by code_simp
  have "case mouse_down opening_selection 4 4 K_q of
          Inl e \<Rightarrow> False
        | Inr g' \<Rightarrow> cell (board g') 6 4 \<noteq> cell (board opening_selection) 6 4"
    by code_simp
  then obtain g' where h4: "mouse_down opening_selection 4 4 K_q = Inr g'"
    and d: "cell (board g') 6 4 \<noteq> cell (board opening_selection) 6 4"
    by (cases "mouse_down opening_selection 4 4 K_q") auto
  from undo_when_commit_returns [OF h1 h2 h3 h4] h1 h2 h3 h4 d show ?thesis by blast
qed

section \<open>A rejected destination\<close>

lemma reselect_frame:
  "reselect g x = Inr g' \<Longrightarrow>
   g' = g\<lparr>selected_piece := selected_piece g', valid_moves := valid_moves g'\<rparr>"
  by (auto simp add: reselect_def split: option.splits if_splits sum.splits)

lemma first_selection_frame:
  "first_selection g x = Inr g' \<Longrightarrow>
   g' = g\<lparr>selected_piece := selected_piece g', valid_moves := valid_moves g'\<rparr>"
  by (auto simp add: first_selection_def split: option.splits if_splits sum.splits)

lemma mouse_down_frame:
  assumes "(r, c) \<notin> set (valid_moves g)" and "mouse_down g r c key = Inr g'"
  shows "g' = g\<lparr>selected_piece := selected_piece g', valid_moves := valid_moves g'\<rparr>"
  using assms
  by (auto simp add: mouse_down_def split: option.splits if_splits
           dest: reselect_frame first_selection_frame)

text \<open>
  Claim C9.  A click on a square that is not in \<^verbatim>\<open>valid_moves\<close> of the selected piece
  commits nothing: pieces and board, side to move, en-passant target, move history, both
  capture lists, the undo stack and the game status are unchanged.  Only the selection
  and its list of offered moves are replaced.
\<close>

theorem rejected_move_keeps_state:
  assumes "selected_piece g = Some sel" and "(r, c) \<notin> set (valid_moves g)"
    and "mouse_down g r c key = Inr g'"
  shows "heap g' = heap g \<and> board g' = board g \<and> turn g' = turn g
       \<and> en_passant_target g' = en_passant_target g
       \<and> move_history g' = move_history g
       \<and> captured_white g' = captured_white g
       \<and> captured_black g' = captured_black g
       \<and> move_stack g' = move_stack g
       \<and> game_over g' = game_over g \<and> winner g' = winner g"
proof -
  from assms(2,3) obtain s v where "g' = g\<lparr>selected_piece := s, valid_moves := v\<rparr>"
    using mouse_down_frame by blast
  then show ?thesis by simp
qed

theorem rejected_move_keeps_state_witness:
  "selected_piece opening_selection = Some 28
   \<and> (6, 3) \<notin> set (valid_moves opening_selection)
   \<and> (\<exists>g'. mouse_down opening_selection 6 3 K_q = Inr g'
          \<and> selected_piece g' = Some 27
          \<and> heap g' = heap opening_selection \<and> board g' = board opening_selection
          \<and> turn g' = turn opening_selection
          \<and> en_passant_target g' = en_passant_target opening_selection
          \<and> move_history g' = move_history opening_selection
          \<and> captured_white g' = captured_white opening_selection
          \<and> captured_black g' = captured_black opening_selection
          \<and> move_stack g' = move_stack opening_selection
          \<and> game_over g' = game_over opening_selection
          \<and> winner g' = winner opening_selection)"
proof -
  have h1: "selected_piece opening_selection = Some 28" by code_simp
  have h2: "(6, 3) \<notin> set (valid_moves opening_selection)" by code_simp
  have "case mouse_down opening_selection 6 3 K_q of
          Inl e \<Rightarrow> False
        | Inr g' \<Rightarrow> selected_piece g' = Some 27"
    by code_simp
  then obtain g' where h3: "mouse_down opening_selection 6 3 K_q = Inr g'"
    and s: "selected_piece g' = Some 27"
    by (cases "mouse_down opening_selection 6 3 K_q") auto
  from rejected_move_keeps_state [OF h1 h2 h3] h1 h2 h3 s show ?thesis by blast
qed


section \<open>Castling\<close>







text \<open>
  The attack test of the castling conditions is \<^verbatim>\<open>is_square_under_attack\<close>: a square
  counts as attacked when some piece of the other colour, kings left out, has it among the
  moves \<^verbatim>\<open>get_valid_moves\<close> generates for it without an en-passant target.
\<close>

lemma is_square_under_attack_iff:
  "is_square_under_attack h b sq cl =
     (\<exists>a \<in> set (pieces_on b). color (h ! a) = opponent cl \<and> name (h ! a) \<noteq> King
          \<and> sq \<in> set (get_valid_moves h b a None))"
  by (auto simp add: is_square_under_attack_def attacks_def get_valid_moves_def list_ex_iff)







section \<open>The en-passant capture\<close>

lemma cell_set_cell_same:
  assumes "wf_board b" and "on_board r c"
  shows "cell (set_cell b r c v) r c = v"
proof -
  from assms have "nat r < 8" and "nat c < 8" unfolding on_board_def by linarith+
  with assms have r: "nat r < length b" and "nat c < length (b ! nat r)"
    by (simp_all add: wf_board_def list_all_length)
  then show ?thesis by (simp add: cell_def set_cell_def)
qed

lemma cell_set_cell_other_row:
  "r \<noteq> r' \<Longrightarrow> 0 \<le> r \<Longrightarrow> 0 \<le> r' \<Longrightarrow> cell (set_cell b r c v) r' c' = cell b r' c'"
  by (simp add: cell_def set_cell_def)

lemma cell_set_cell_other_col:
  "c \<noteq> c' \<Longrightarrow> 0 \<le> c \<Longrightarrow> 0 \<le> c' \<Longrightarrow> cell (set_cell b r c v) r' c' = cell b r' c'"
  by (cases "nat r < length b"; cases "nat r = nat r'")
     (simp_all add: cell_def set_cell_def list_update_beyond)

lemma wf_board_set_cell:
  assumes "wf_board b"
  shows "wf_board (set_cell b r c v)"
proof -
  have "length (b[nat r := (b ! nat r)[nat c := v]] ! n) = 8" if "n < 8" for n
    using assms that by (cases "n = nat r") (simp_all add: wf_board_def list_all_length)
  with assms show ?thesis by (simp add: wf_board_def set_cell_def list_all_length)
qed

lemma evaluate_status_frame:
  "evaluate_status g = Inr g' \<Longrightarrow>
   board g' = board g \<and> captured_white g' = captured_white g
   \<and> captured_black g' = captured_black g"
  by (auto simp add: evaluate_status_def note_checkmate_def note_check_def Let_def split_beta
           split: sum.splits if_splits)

lemma en_passant_capture_effect:
  assumes "name (heap g ! sel) = Pawn" and "en_passant_target g = Some (r, c)"
    and "en_passant_capture g sel r c = Inr g1"
  shows "\<exists>a. cell (board g) (row (heap g ! sel)) c = Some a
           \<and> g1 = record_capture (heap g ! a)
                    (g\<lparr>board := set_cell (board g) (row (heap g ! sel)) c None\<rparr>)"
  using assms
  by (auto simp add: en_passant_capture_def Let_def split: option.splits)

lemma record_capture_fields [simp]:
  "board (record_capture p g) = board g"
  "heap (record_capture p g) = heap g"
  "captured_white (record_capture p g) =
     captured_white g @ (if color p = White then [name_str (name p) @ ''p''] else [])"
  "captured_black (record_capture p g) =
     captured_black g @ (if color p = White then [] else [name_str (name p) @ ''p''])"
  by (simp_all add: record_capture_def)

text \<open>
  Claim C6.  Let the selected piece be a pawn and let the clicked destination be the
  en-passant target, an empty square in another row than the pawn.  When the move is
  committed, the piece taken off the board is the occupant of the square in the
  pawn's row before the move and the destination's column: that cell is empty afterwards,
  and the tag of that piece is the one entry added to the capture list of its colour,
  while the other capture list is unchanged.
\<close>

theorem en_passant_removes_bypassed_pawn:
  assumes wf: "wf_board (board g)"
    and sel: "selected_piece g = Some sel" and ref: "sel < length (heap g)"
    and pawn: "name (heap g ! sel) = Pawn"
    and ep: "en_passant_target g = Some (r, c)"
    and valid: "(r, c) \<in> set (valid_moves g)" and live: "\<not> game_over g"
    and dest: "on_board r c" and empty: "cell (board g) r c = None"
    and orig: "on_board (row (heap g ! sel)) (col (heap g ! sel))"
    and rows: "r \<noteq> row (heap g ! sel)"
    and ok: "mouse_down g r c key = Inr g'"
  shows "\<exists>a. cell (board g) (row (heap g ! sel)) c = Some a
           \<and> cell (board g') (row (heap g ! sel)) c = None
           \<and> captured_white g' = captured_white g
                @ (if color (heap g ! a) = White then [name_str (name (heap g ! a)) @ ''p''] else [])
           \<and> captured_black g' = captured_black g
                @ (if color (heap g ! a) = White then [] else [name_str (name (heap g ! a)) @ ''p''])"
proof -
  let ?sr = "row (heap g ! sel)" and ?sc = "col (heap g ! sel)"
  let ?g0 = "g\<lparr>move_stack := move_stack g @ [snapshot_of g]\<rparr>"
  from sel valid live ok have cm: "commit g sel r c key = Inr g'"
    by (simp add: mouse_down_def)
  from cm obtain g1 where g1: "en_passant_capture ?g0 sel r c = Inr g1"
    by (auto simp add: commit_def Let_def split: sum.splits)
  from cm g1 obtain g2 where g2: "castling (move_piece g1 sel r c) sel r c = Inr g2"
    by (auto simp add: commit_def Let_def split: sum.splits)
  let ?p = "promotion g2 sel r c key"
  let ?g4 = "log_move (update_en_passant (fst ?p) (snd ?p) r c) (snd ?p) r c"
  from cm g1 g2 obtain g5 where g5: "evaluate_status ?g4 = Inr g5"
    and g': "g' = g5\<lparr>selected_piece := None, valid_moves := []\<rparr>"
    by (auto simp add: commit_def Let_def split_beta split: sum.splits)
  from en_passant_capture_effect [OF _ _ g1] pawn ep
  obtain a where a: "cell (board g) ?sr c = Some a"
    and g1_eq: "g1 = record_capture (heap g ! a) (?g0\<lparr>board := set_cell (board g) ?sr c None\<rparr>)"
    by auto
  have nn: "0 \<le> r" "0 \<le> ?sr" using dest orig by (simp_all add: on_board_def)
  have b1: "board g1 = set_cell (board g) ?sr c None" and h1: "heap g1 = heap g"
    by (simp_all add: g1_eq)
  let ?b1 = "set_cell (set_cell (board g) ?sr c None) ?sr ?sc None"
  have target: "cell ?b1 r c = None"
    using rows nn empty by (simp add: cell_set_cell_other_row)
  have m_board: "board (move_piece g1 sel r c) = set_cell ?b1 r c (Some sel)"
    and m_cw: "captured_white (move_piece g1 sel r c) = captured_white g1"
    and m_cb: "captured_black (move_piece g1 sel r c) = captured_black g1"
    and m_name: "name (heap (move_piece g1 sel r c) ! sel) = Pawn"
    using target ref pawn by (simp_all add: move_piece_def Let_def b1 h1)
  have g2_eq: "g2 = move_piece g1 sel r c"
    using g2 m_name by (simp add: castling_def)
  have p_cell: "cell (board (fst ?p)) ?sr c = cell (board g2) ?sr c"
    using rows nn by (simp add: promotion_def Let_def cell_set_cell_other_row)
  have p_cw: "captured_white (fst ?p) = captured_white g2"
    and p_cb: "captured_black (fst ?p) = captured_black g2"
    by (simp_all add: promotion_def Let_def)
  have g4_fields: "board ?g4 = board (fst ?p)" "captured_white ?g4 = captured_white (fst ?p)"
    "captured_black ?g4 = captured_black (fst ?p)"
    by (simp_all add: log_move_def update_en_passant_def Let_def)
  from evaluate_status_frame [OF g5] g4_fields
  have g'_fields: "board g' = board (fst ?p)" "captured_white g' = captured_white (fst ?p)"
    "captured_black g' = captured_black (fst ?p)"
    by (simp_all add: g')
  have "cell (board g') ?sr c = cell (board (fst ?p)) ?sr c"
    by (simp add: g'_fields)
  also have "\<dots> = cell (board g2) ?sr c" by (rule p_cell)
  also have "\<dots> = cell (set_cell ?b1 r c (Some sel)) ?sr c"
    by (simp add: g2_eq m_board)
  also have "\<dots> = cell ?b1 ?sr c"
    using rows nn by (simp add: cell_set_cell_other_row)
  also have "\<dots> = None"
  proof (cases "c = ?sc")
    case True
    from wf have "wf_board (set_cell (board g) ?sr ?sc None)" by (rule wf_board_set_cell)
    with True orig show ?thesis by (simp add: cell_set_cell_same)
  next
    case False
    have oc: "on_board ?sr c" using dest orig by (simp add: on_board_def)
    then have "0 \<le> c" and "0 \<le> ?sc" using orig by (simp_all add: on_board_def)
    with False have "cell ?b1 ?sr c = cell (set_cell (board g) ?sr c None) ?sr c"
      by (simp add: cell_set_cell_other_col)
    also have "\<dots> = None" using wf oc by (rule cell_set_cell_same)
    finally show ?thesis .
  qed
  finally have gone: "cell (board g') ?sr c = None" .
  have "captured_white g' = captured_white (fst ?p)" by (simp add: g'_fields)
  also have "\<dots> = captured_white g2" by (rule p_cw)
  also have "\<dots> = captured_white g1" by (simp add: g2_eq m_cw)
  finally have cw: "captured_white g' = captured_white g
                @ (if color (heap g ! a) = White then [name_str (name (heap g ! a)) @ ''p''] else [])"
    by (simp add: g1_eq)
  have "captured_black g' = captured_black (fst ?p)" by (simp add: g'_fields)
  also have "\<dots> = captured_black g2" by (rule p_cb)
  also have "\<dots> = captured_black g1" by (simp add: g2_eq m_cb)
  finally have cb: "captured_black g' = captured_black g
                @ (if color (heap g ! a) = White then [] else [name_str (name (heap g ! a)) @ ''p''])"
    by (simp add: g1_eq)
  from a gone cw cb show ?thesis by blast
qed

theorem en_passant_removes_bypassed_pawn_witness:
  "wf_board (board en_passant_game)
   \<and> selected_piece en_passant_game = Some 2 \<and> 2 < length (heap en_passant_game)
   \<and> name (heap en_passant_game ! 2) = Pawn
   \<and> en_passant_target en_passant_game = Some (2, 3)
   \<and> (2, 3) \<in> set (valid_moves en_passant_game) \<and> \<not> game_over en_passant_game
   \<and> on_board 2 3 \<and> cell (board en_passant_game) 2 3 = None
   \<and> on_board (row (heap en_passant_game ! 2)) (col (heap en_passant_game ! 2))
   \<and> 2 \<noteq> row (heap en_passant_game ! 2)
   \<and> (\<exists>g'. mouse_down en_passant_game 2 3 K_q = Inr g'
         \<and> cell (board g') 2 3 = Some 2
         \<and> (\<exists>a. cell (board en_passant_game) (row (heap en_passant_game ! 2)) 3 = Some a
              \<and> cell (board g') (row (heap en_passant_game ! 2)) 3 = None
              \<and> captured_white g' = captured_white en_passant_game
                   @ (if color (heap en_passant_game ! a) = White
                      then [name_str (name (heap en_passant_game ! a)) @ ''p''] else [])
              \<and> captured_black g' = captured_black en_passant_game
                   @ (if color (heap en_passant_game ! a) = White
                      then [] else [name_str (name (heap en_passant_game ! a)) @ ''p''])))"
proof -
  have h1: "wf_board (board en_passant_game)" by code_simp
  have h2: "selected_piece en_passant_game = Some 2" by code_simp
  have h3: "2 < length (heap en_passant_game)" by code_simp
  have h4: "name (heap en_passant_game ! 2) = Pawn" by code_simp
  have h5: "en_passant_target en_passant_game = Some (2, 3)" by code_simp
  have h6: "(2, 3) \<in> set (valid_moves en_passant_game)" by code_simp
  have h7: "\<not> game_over en_passant_game" by code_simp
  have h8: "on_board 2 3" by code_simp
  have h9: "cell (board en_passant_game) 2 3 = None" by code_simp
  have h10: "on_board (row (heap en_passant_game ! 2)) (col (heap en_passant_game ! 2))"
    by code_simp
  have h11: "2 \<noteq> row (heap en_passant_game ! 2)" by code_simp
  have "case mouse_down en_passant_game 2 3 K_q of
          Inl e \<Rightarrow> False
        | Inr g' \<Rightarrow> cell (board g') 2 3 = Some 2"
    by code_simp
  then obtain g' where h12: "mouse_down en_passant_game 2 3 K_q = Inr g'"
    and d: "cell (board g') 2 3 = Some 2"
    by (cases "mouse_down en_passant_game 2 3 K_q") auto
  from en_passant_removes_bypassed_pawn [OF h1 h2 h3 h4 h5 h6 h7 h8 h9 h10 h11 h12]
    h1 h2 h3 h4 h5 h6 h7 h8 h9 h10 h11 h12 d
  show ?thesis by blast
qed


section \<open>The en-passant target after a move\<close>

lemma choice_is_no_pawn: "choice_of key \<noteq> Pawn"
  by (cases key) simp_all

lemma move_piece_selected:
  assumes "sel < length (heap g)"
  shows "row (heap (move_piece g sel r c) ! sel) = r"
    and "name (heap (move_piece g sel r c) ! sel) = name (heap g ! sel)"
    and "length (heap (move_piece g sel r c)) = length (heap g)"
  using assms by (simp_all add: move_piece_def Let_def record_capture_def split: option.splits)

lemma castling_selected:
  assumes "castling g sel r c = Inr g'" and "row (heap g ! sel) = r"
  shows "row (heap g' ! sel) = r \<and> name (heap g' ! sel) = name (heap g ! sel)"
proof -
  have rook: "row (heap g2 ! sel) = r \<and> name (heap g2 ! sel) = name (heap g ! sel)"
    if "castle_rook g r c_from c_to = Inr g2" for c_from c_to g2
  proof -
    from that obtain a where g2: "g2 = g\<lparr>board := set_cell (set_cell (board g) r c_from None) r c_to (Some a),
         heap := (heap g)[a := (heap g ! a)\<lparr>row := r, col := c_to, has_moved := True\<rparr>]\<rparr>"
      by (auto simp add: castle_rook_def Let_def split: option.splits)
    show ?thesis
      using assms(2) by (cases "a = sel"; cases "a < length (heap g)") (simp_all add: g2 list_update_beyond)
  qed
  show ?thesis
  proof (cases "name (heap g ! sel) = King \<and> \<bar>c - 4\<bar> = 2")
    case False
    with assms(1) have "g = g'" by (simp add: castling_def)
    with assms(2) show ?thesis by simp
  next
    case True
    show ?thesis
    proof (cases "c - 4 = 2")
      case kingside: True
      with True assms(1) have "castle_rook g r 7 5 = Inr g'" by (simp add: castling_def)
      then show ?thesis by (rule rook)
    next
      case False
      with True have "c - 4 = - 2" by arith
      with True False assms(1) have "castle_rook g r 0 3 = Inr g'" by (simp add: castling_def)
      then show ?thesis by (rule rook)
    qed
  qed
qed

lemma update_after_promotion:
  assumes "row (heap g ! sel) = r"
  shows "en_passant_target (update_en_passant (fst (promotion g sel r c key))
                              (snd (promotion g sel r c key)) r c) = None"
  using assms
  by (simp add: promotion_def update_en_passant_def Let_def promote_pawn_def Piece_def
                choice_is_no_pawn)

lemma evaluate_status_en_passant:
  "evaluate_status g = Inr g' \<Longrightarrow> en_passant_target g' = en_passant_target g"
  by (auto simp add: evaluate_status_def note_checkmate_def note_check_def Let_def split_beta
           split: sum.splits if_splits)

text \<open>
  No committed move leaves an en-passant target behind: whatever the state, the piece and
  the destination, the target is \<^verbatim>\<open>None\<close> when the handler returns.
\<close>

lemma commit_clears_en_passant:
  assumes "sel < length (heap g)" and "commit g sel r c key = Inr g'"
  shows "en_passant_target g' = None"
proof -
  let ?g0 = "g\<lparr>move_stack := move_stack g @ [snapshot_of g]\<rparr>"
  from assms(2) obtain g1 where g1: "en_passant_capture ?g0 sel r c = Inr g1"
    by (auto simp add: commit_def Let_def split: sum.splits)
  from assms(2) g1 obtain g2 where g2: "castling (move_piece g1 sel r c) sel r c = Inr g2"
    by (auto simp add: commit_def Let_def split: sum.splits)
  let ?p = "promotion g2 sel r c key"
  let ?g4 = "log_move (update_en_passant (fst ?p) (snd ?p) r c) (snd ?p) r c"
  from assms(2) g1 g2 obtain g5 where g5: "evaluate_status ?g4 = Inr g5"
    and g': "g' = g5\<lparr>selected_piece := None, valid_moves := []\<rparr>"
    by (auto simp add: commit_def Let_def split_beta split: sum.splits)
  from g1 have "heap g1 = heap g"
    by (auto simp add: en_passant_capture_def Let_def record_capture_def
             split: if_splits option.splits)
  with assms(1) have "sel < length (heap g1)" by simp
  then have "row (heap (move_piece g1 sel r c) ! sel) = r" by (rule move_piece_selected)
  with g2 have "row (heap g2 ! sel) = r" by (auto dest: castling_selected)
  then have "en_passant_target (update_en_passant (fst ?p) (snd ?p) r c) = None"
    by (rule update_after_promotion)
  then have "en_passant_target ?g4 = None" by (simp add: log_move_def Let_def)
  with evaluate_status_en_passant [OF g5] show ?thesis by (simp add: g')
qed


section \<open>Where the program departs from its description\<close>

text \<open>
  Claim C1 says that the destinations offered for a selected piece never include a move
  that leaves the mover's own king in check.  The program filters the generated moves
  through \<^verbatim>\<open>move_puts_king_in_check\<close> when a piece is clicked while another one is
  selected, but on a first click it filters only if the side to move is in check.  After
  the moves (6,4) to (4,4), (1,4) to (3,4) and (7,3) to (3,7) from the initial position,
  the black pawn on (1,5) shields the black king from the white queen.  Black is not in
  check, so a first click on that pawn offers (2,5), a move that
  \<^verbatim>\<open>move_puts_king_in_check\<close> reports as leaving Black in check; the click on (2,5)
  commits it, and Black's king is in check on the resulting board.
\<close>

theorem pinned_pawn_is_offered:
  "(case clicks new_game [(6, 4), (4, 4), (1, 4), (3, 4), (7, 3), (3, 7), (1, 5)] of
      Inl e \<Rightarrow> False
    | Inr g \<Rightarrow>
        turn g = Black \<and> \<not> game_over g \<and> selected_piece g = Some 13
        \<and> (2, 5) \<in> set (valid_moves g)
        \<and> move_puts_king_in_check (heap g) (board g) 13 (2, 5) Black = Inr True
        \<and> (case mouse_down g 2 5 K_q of
              Inl e \<Rightarrow> False
            | Inr g' \<Rightarrow> cell (board g') 2 5 = Some 13 \<and> turn g' = White
                        \<and> is_in_check (heap g') (board g') Black))"
  by code_simp

text \<open>
  Claim C2 says that a committed two-rank pawn advance sets the en-passant target to the
  square passed over, (5,4) after White's (6,4) to (4,4) and (2,3) after Black's (1,3) to
  (3,3).  Line 1011 compares the destination row with the row field of the moved pawn,
  which line 983 has already set to the destination row, so the difference is 1 and never
  2: the target is \<^verbatim>\<open>None\<close> after both moves.
\<close>

theorem en_passant_target_never_set:
  "(case clicks new_game [(6, 4), (4, 4)] of
      Inl e \<Rightarrow> False
    | Inr g \<Rightarrow> cell (board g) 4 4 = Some 28 \<and> name (heap g ! 28) = Pawn
               \<and> turn g = Black \<and> en_passant_target g = None)
   \<and> (case clicks new_game [(6, 4), (4, 4), (1, 3), (3, 3)] of
      Inl e \<Rightarrow> False
    | Inr g \<Rightarrow> cell (board g) 3 3 = Some 11 \<and> name (heap g ! 11) = Pawn
               \<and> turn g = White \<and> en_passant_target g = None)"
  by code_simp

text \<open>
  Claim C3 says that from every state reached by legal moves, committing one more legal
  move and then undoing it gives back the state before the move.  Lines 987 to 1003 take
  every arrival of a king in column 6 or 2 for castling.  After (6,5) to (4,5), (1,0) to
  (2,0), (7,4) to (6,5) and (1,1) to (2,1) the white king on (6,5) is offered the step to
  (5,6), which does not leave it in check.  Committing it pushes the snapshot, moves the
  king, reads the empty cell (5,7) as the rook and raises \<^verbatim>\<open>AttributeError\<close> at line
  993: the handler never returns, and there is no state left to undo.
\<close>

theorem king_step_raises_before_undo:
  "(case clicks new_game
           [(6, 5), (4, 5), (1, 0), (2, 0), (7, 4), (6, 5), (1, 1), (2, 1), (6, 5)] of
      Inl e \<Rightarrow> False
    | Inr g \<Rightarrow>
        turn g = White \<and> \<not> game_over g \<and> selected_piece g = Some 20
        \<and> name (heap g ! 20) = King
        \<and> (5, 6) \<in> set (valid_moves g)
        \<and> move_puts_king_in_check (heap g) (board g) 20 (5, 6) White = Inr False
        \<and> cell (board g) 5 7 = None
        \<and> mouse_down g 5 6 K_q = Inl AttributeError)"
  by code_simp

text \<open>
  Claim C5 says that \<^verbatim>\<open>is_checkmate\<close> returns true exactly when the colour is in check
  and none of its pieces has a legal move.  In the position \<open>ladder_board\<close> Black is in
  check, Black's only piece is the king, and the only move generated for it, to (0,6),
  is rejected by \<^verbatim>\<open>move_puts_king_in_check\<close>: Black has no legal move.  When
  \<^verbatim>\<open>is_checkmate\<close> simulates that move it takes the king's arrival in column 6 for
  castling, reads the empty cell (0,7) as the rook and assigns to its row field, which
  raises \<^verbatim>\<open>AttributeError\<close> instead of returning.  The same exception ends the game
  loop when White, in \<open>ladder_before\<close>, clicks on the rook on (5,1) and then on (0,1).
\<close>

theorem is_checkmate_raises_on_mate:
  "is_in_check ladder_heap ladder_board Black
   \<and> pieces_on ladder_board = [0, 1, 2, 3]
   \<and> map (\<lambda>a. color (ladder_heap ! a)) [0, 1, 2, 3] = [White, Black, White, White]
   \<and> get_valid_moves ladder_heap ladder_board 1 None = [(0, 6)]
   \<and> keep_safe ladder_heap ladder_board 1 Black [(0, 6)] = Inr []
   \<and> is_checkmate ladder_heap ladder_board Black = Inl AttributeError
   \<and> clicks ladder_before [(5, 1), (0, 1)] = Inl AttributeError"
  by code_simp

text \<open>
  Claim C7 says that every record appended to the move history encodes the origin and the
  destination of the move.  Line 1018 formats the origin from the row and column fields
  of the moved piece after line 983 has set them to the destination, so the record names
  the destination twice.  The first move (6,4) to (4,4) is logged as going from (4, 4) to
  (4, 4); and after (6,4) to (4,4), (1,4) to (3,4), (7,1) to (5,2), (0,1) to (2,2) the
  knight moves (5,2) to (6,4) and (7,6) to (6,4) leave the same move history although
  they end in different positions.
\<close>

theorem move_record_omits_origin:
  "(case clicks new_game [(6, 4), (4, 4)] of
      Inl e \<Rightarrow> False
    | Inr g \<Rightarrow> move_history g = [''1. White: P from (4, 4) to (4, 4)''])
   \<and> (case clicks new_game
             [(6, 4), (4, 4), (1, 4), (3, 4), (7, 1), (5, 2), (0, 1), (2, 2), (5, 2), (6, 4)] of
        Inl e \<Rightarrow> False
      | Inr ga \<Rightarrow>
          (case clicks new_game
                  [(6, 4), (4, 4), (1, 4), (3, 4), (7, 1), (5, 2), (0, 1), (2, 2), (7, 6), (6, 4)] of
             Inl e \<Rightarrow> False
           | Inr gb \<Rightarrow>
               move_history ga = move_history gb
               \<and> last (move_history ga) = ''3. White: N from (6, 4) to (6, 4)''
               \<and> cell (board ga) 6 4 = Some 17 \<and> cell (board gb) 6 4 = Some 22))"
  by code_simp


end
